theory Spec2Isabelle
  imports Main
begin

section \<open>JavaScript values of the parsed API payload\<close>

text \<open>
  \<^verbatim>\<open>fetchBggApi\<close> hands on what \<^verbatim>\<open>xml2js\<close> parsed (options
  \<^verbatim>\<open>explicitArray: false, mergeAttrs: true\<close>): strings, arrays and plain objects whose
  keys are element and attribute names. \<open>JNull\<close> and \<open>JUndefined\<close> are JavaScript's
  \<^verbatim>\<open>null\<close> and \<^verbatim>\<open>undefined\<close>. \<open>JFunction\<close> stands for an inherited method
  read as a property: of the property names \<^verbatim>\<open>main.js\<close> reads, only \<^verbatim>\<open>link\<close> is
  inherited by some value (\<^verbatim>\<open>String.prototype.link\<close>).
\<close>

datatype jsval =
    JUndefined
  | JNull
  | JStr string
  | JArr "jsval list"
  | JObj "(string \<times> jsval) list"
  | JFunction string

datatype js_error = TypeError

text \<open>JavaScript truthiness on these values: only \<^verbatim>\<open>undefined\<close>, \<^verbatim>\<open>null\<close> and
  the empty string are falsy.\<close>

fun truthy :: "jsval \<Rightarrow> bool" where
  "truthy JUndefined = False"
| "truthy JNull = False"
| "truthy (JStr s) = (s \<noteq> [])"
| "truthy (JArr xs) = True"
| "truthy (JObj kvs) = True"
| "truthy (JFunction n) = True"

text \<open>\<^verbatim>\<open>a || b\<close> and \<^verbatim>\<open>a && b\<close>.\<close>

definition js_or :: "jsval \<Rightarrow> jsval \<Rightarrow> jsval" where
  "js_or a b = (if truthy a then a else b)"

definition js_and :: "jsval \<Rightarrow> jsval \<Rightarrow> jsval" where
  "js_and a b = (if truthy a then b else a)"

text \<open>
  Property read \<^verbatim>\<open>v.k\<close> on a value that is neither \<^verbatim>\<open>null\<close> nor
  \<^verbatim>\<open>undefined\<close>. \<^verbatim>\<open>main.js\<close> guards every read by a truthiness test of the
  receiver, except \<^verbatim>\<open>t.name[0].value\<close> and \<^verbatim>\<open>e.message\<close>, whose failures
  \<open>thing_name\<close> and \<open>save_api_json\<close> model.
\<close>

fun getprop :: "jsval \<Rightarrow> string \<Rightarrow> jsval" where
  "getprop (JObj kvs) k = (case map_of kvs k of Some x \<Rightarrow> x | None \<Rightarrow> JUndefined)"
| "getprop (JStr s) k = (if k = ''link'' then JFunction ''link'' else JUndefined)"
| "getprop (JFunction n) k = (if k = ''name'' then JStr n else JUndefined)"
| "getprop (JArr xs) k = JUndefined"
| "getprop JNull k = JUndefined"
| "getprop JUndefined k = JUndefined"

section \<open>normalizeBggApi\<close>

text \<open>The object \<^verbatim>\<open>item\<close> built by \<^verbatim>\<open>normalizeBggApi\<close>.\<close>

record normalized =
  i_bgg_id :: jsval
  i_name :: jsval
  i_year :: jsval
  i_description :: jsval
  i_min_players :: jsval
  i_max_players :: jsval
  i_playing_time :: jsval
  i_designers :: "jsval list"
  i_mechanics :: "jsval list"
  i_categories :: "jsval list"
  i_geek_rating :: jsval
  i_avg_rating :: jsval
  i_num_voters :: jsval

text \<open>\<^verbatim>\<open>Array.isArray(t.name) ? t.name[0].value : (t.name && t.name.value) || ''\<close>:
  reading \<^verbatim>\<open>.value\<close> of a missing or null first element throws.\<close>

definition thing_name :: "jsval \<Rightarrow> js_error + jsval" where
  "thing_name t =
     (case getprop t ''name'' of
        JArr xs \<Rightarrow>
          (case xs of
             [] \<Rightarrow> Inl TypeError
           | x # _ \<Rightarrow> if x = JUndefined \<or> x = JNull then Inl TypeError
                      else Inr (getprop x ''value''))
      | n \<Rightarrow> Inr (js_or (js_and n (getprop n ''value'')) (JStr [])))"

text \<open>\<^verbatim>\<open>t.k ? t.k.value : ''\<close>.\<close>

definition value_of :: "jsval \<Rightarrow> string \<Rightarrow> jsval" where
  "value_of t k = (if truthy (getprop t k) then getprop (getprop t k) ''value'' else JStr [])"

text \<open>\<^verbatim>\<open>Array.isArray(t.link) ? t.link : (t.link ? [t.link] : [])\<close>.\<close>

definition links_of :: "jsval \<Rightarrow> jsval list" where
  "links_of t =
     (case getprop t ''link'' of
        JArr ls \<Rightarrow> ls
      | l \<Rightarrow> if truthy l then [l] else [])"

text \<open>\<^verbatim>\<open>l.value || l.name || ''\<close>.\<close>

definition display_value :: "jsval \<Rightarrow> jsval" where
  "display_value l = js_or (js_or (getprop l ''value'') (getprop l ''name'')) (JStr [])"

text \<open>The body of the \<^verbatim>\<open>for (const l of links)\<close> loop, and the loop.\<close>

definition push_link :: "jsval \<Rightarrow> normalized \<Rightarrow> normalized" where
  "push_link l item =
     (if \<not> truthy l then item
      else
        let type = getprop l ''type'';
            val = display_value l;
            item1 = (if type = JStr ''boardgamedesigner''
                     then item\<lparr>i_designers := i_designers item @ [val]\<rparr> else item);
            item2 = (if type = JStr ''boardgamemechanic''
                     then item1\<lparr>i_mechanics := i_mechanics item1 @ [val]\<rparr> else item1);
            item3 = (if type = JStr ''boardgamecategory''
                     then item2\<lparr>i_categories := i_categories item2 @ [val]\<rparr> else item2)
        in item3)"

fun push_links :: "jsval list \<Rightarrow> normalized \<Rightarrow> normalized" where
  "push_links [] item = item"
| "push_links (l # ls) item = push_links ls (push_link l item)"

definition normalizeBggApi :: "jsval \<Rightarrow> js_error + normalized option" where
  "normalizeBggApi json =
     (if \<not> truthy json \<or> \<not> truthy (getprop json ''thing'') then Inr None
      else
        let t = getprop json ''thing'';
            stats = getprop t ''statistics'';
            ratings = getprop stats ''ratings''
        in case thing_name t of
             Inl e \<Rightarrow> Inl e
           | Inr nm \<Rightarrow>
               Inr (Some (push_links (links_of t)
                 \<lparr> i_bgg_id = getprop t ''id'',
                   i_name = nm,
                   i_year = value_of t ''yearpublished'',
                   i_description = (if truthy (getprop t ''description'')
                                    then getprop t ''description'' else JStr []),
                   i_min_players = value_of t ''minplayers'',
                   i_max_players = value_of t ''maxplayers'',
                   i_playing_time = value_of t ''playingtime'',
                   i_designers = [],
                   i_mechanics = [],
                   i_categories = [],
                   i_geek_rating =
                     (if truthy (js_and (js_and stats ratings) (getprop ratings ''ranks''))
                      then getprop (getprop ratings ''ranks'') ''rank'' else JNull),
                   i_avg_rating =
                     (if truthy (js_and stats ratings)
                      then getprop ratings ''average'' else JNull),
                   i_num_voters =
                     (if truthy (js_and stats ratings)
                      then getprop ratings ''usersrated'' else JNull) \<rparr>)))"

section \<open>Strings and the two identifier patterns\<close>

text \<open>Strings are lists of code units below 256. \<^verbatim>\<open>\d\<close> is an ASCII digit; the
  white space of \<^verbatim>\<open>trim\<close> is tab, line feed, vertical tab, form feed, carriage
  return, space and no-break space; \<^verbatim>\<open>.\<close> excludes line feed and carriage return.\<close>

definition is_digit :: "char \<Rightarrow> bool" where
  "is_digit c = (c \<in> set ''0123456789'')"

definition js_space :: "char \<Rightarrow> bool" where
  "js_space c = (c \<in> set [CHR 0x09, CHR 0x0A, CHR 0x0B, CHR 0x0C, CHR 0x0D, CHR 0x20, CHR 0xA0])"

definition line_terminator :: "char \<Rightarrow> bool" where
  "line_terminator c = (c = CHR 0x0A \<or> c = CHR 0x0D)"

definition trim :: "string \<Rightarrow> string" where
  "trim s = rev (dropWhile js_space (rev (dropWhile js_space s)))"

text \<open>\<^verbatim>\<open>replace(/[^\d]/g, '')\<close>.\<close>

definition digits_only :: "string \<Rightarrow> string" where
  "digits_only s = filter is_digit s"

definition starts_with :: "string \<Rightarrow> string \<Rightarrow> bool" where
  "starts_with p s = (take (length p) s = p)"

text \<open>The attribute selector \<^verbatim>\<open>[href*="..."]\<close>: the value contains the substring.\<close>

fun contains :: "string \<Rightarrow> string \<Rightarrow> bool" where
  "contains sub [] = (sub = [])"
| "contains sub (c # cs) = (starts_with sub (c # cs) \<or> contains sub cs)"

text \<open>
  A backtracking matcher for the two regular expressions, as \<^verbatim>\<open>String.prototype.match\<close>
  runs them: the start positions are tried from the left, at each position the alternatives
  in order, and a greedy \<^verbatim>\<open>.*\<close> gives characters back one at a time.

  \<open>slash_digits\<close> is \<^verbatim>\<open>\/(\d+)\<close> at the head of the string, returning the capture;
  \<open>dotstar_slash_digits\<close> is \<^verbatim>\<open>(?:.*)\/(\d+)\<close>.
\<close>

definition slash_digits :: "string \<Rightarrow> string option" where
  "slash_digits s =
     (case s of
        [] \<Rightarrow> None
      | c # r \<Rightarrow> if c = CHR ''/'' \<and> takeWhile is_digit r \<noteq> []
                 then Some (takeWhile is_digit r) else None)"

fun dotstar_slash_digits :: "string \<Rightarrow> string option" where
  "dotstar_slash_digits [] = slash_digits []"
| "dotstar_slash_digits (c # cs) =
     (if line_terminator c then slash_digits (c # cs)
      else case dotstar_slash_digits cs of
             Some d \<Rightarrow> Some d
           | None \<Rightarrow> slash_digits (c # cs))"

text \<open>\<^verbatim>\<open>\/boardgame\/(?:.*)\/(\d+)\<close> anchored at the head of the string.\<close>

definition typed_segment_at :: "string \<Rightarrow> string option" where
  "typed_segment_at s =
     (if starts_with ''/boardgame/'' s then dotstar_slash_digits (drop 11 s) else None)"

text \<open>\<^verbatim>\<open>\/boardgame\/(\d+)\<close> anchored at the head of the string.\<close>

definition trailing_id_at :: "string \<Rightarrow> string option" where
  "trailing_id_at s =
     (if starts_with ''/boardgame/'' s \<and> takeWhile is_digit (drop 11 s) \<noteq> []
      then Some (takeWhile is_digit (drop 11 s)) else None)"

text \<open>The canonical-link pattern
  \<^verbatim>\<open>/\/boardgame\/(?:.*)\/(\d+)|\/boardgame\/(\d+)/\<close> at one position: the pair of
  captures \<^verbatim>\<open>(m[1], m[2])\<close>, \<open>None\<close> for an undefined capture.\<close>

definition canonical_at :: "string \<Rightarrow> (string option \<times> string option) option" where
  "canonical_at s =
     (case typed_segment_at s of
        Some d \<Rightarrow> Some (Some d, None)
      | None \<Rightarrow>
          (case trailing_id_at s of
             Some d \<Rightarrow> Some (None, Some d)
           | None \<Rightarrow> None))"

text \<open>Leftmost match: the first start position at which the anchored matcher succeeds.\<close>

fun search :: "(string \<Rightarrow> 'a option) \<Rightarrow> string \<Rightarrow> 'a option" where
  "search f [] = f []"
| "search f (c # cs) = (case f (c # cs) of Some r \<Rightarrow> Some r | None \<Rightarrow> search f cs)"

text \<open>\<^verbatim>\<open>a || b\<close> on a capture that may be undefined.\<close>

definition capture_or :: "string option \<Rightarrow> string \<Rightarrow> string" where
  "capture_or m d = (case m of Some x \<Rightarrow> if x \<noteq> [] then x else d | None \<Rightarrow> d)"

text \<open>Lines 90 to 93: the identifier read from a canonical link.\<close>

definition canonical_bgg_id :: "string \<Rightarrow> string" where
  "canonical_bgg_id canonical =
     (if canonical \<noteq> [] then
        (case search canonical_at canonical of
           Some (m1, m2) \<Rightarrow> capture_or m1 (capture_or m2 [])
         | None \<Rightarrow> [])
      else [])"

text \<open>Lines 96 to 98: \<^verbatim>\<open>metaId.match(/\/boardgame\/(?:.*)\/(\d+)/)\<close>, keeping the
  identifier found so far when there is no match.\<close>

definition meta_bgg_id :: "string \<Rightarrow> string \<Rightarrow> string" where
  "meta_bgg_id bggId metaId =
     (case search typed_segment_at metaId of Some d \<Rightarrow> d | None \<Rightarrow> bggId)"

section \<open>The fetched page\<close>

text \<open>
  Cheerio is outside the repository: a document answers the queries \<^verbatim>\<open>main.js\<close> makes.
  \<open>sel_texts doc sel\<close> is \<^verbatim>\<open>text()\<close> of each element \<^verbatim>\<open>$(sel)\<close> matches, in
  document order; \<open>sel_attr doc sel a\<close> is \<^verbatim>\<open>$(sel).attr(a)\<close>, \<open>None\<close> for
  \<^verbatim>\<open>undefined\<close>. \<open>row_elems\<close> is
  \<^verbatim>\<open>$('.collection_table tr, .table tr, .ranked-item, .hot-item').toArray()\<close>, and
  \<open>link_candidates\<close> are the URLs of the request options that \<^verbatim>\<open>enqueueLinks\<close>
  hands to \<^verbatim>\<open>transformRequestFunction\<close>.

  A row lists its \<^verbatim>\<open>a\<close> descendants in document order (the \<^verbatim>\<open>href\<close> attribute, the
  text), and the texts of the elements matching \<^verbatim>\<open>.collection_rank, .rank\<close> and
  \<^verbatim>\<open>.hotness, .post_hotness, .rank_change\<close>.
\<close>

record row_element =
  anchors :: "(string option \<times> string) list"
  rank_texts :: "string list"
  hotness_texts :: "string list"

record document =
  sel_texts :: "string \<Rightarrow> string list"
  sel_attr :: "string \<Rightarrow> string \<Rightarrow> string option"
  row_elems :: "row_element list"
  link_candidates :: "string list"

text \<open>A request: \<^verbatim>\<open>url\<close>, \<^verbatim>\<open>loadedUrl\<close> and \<^verbatim>\<open>userData.startHost\<close>,
  \<open>None\<close> for \<^verbatim>\<open>undefined\<close>.\<close>

record request =
  req_url :: string
  req_loadedUrl :: "string option"
  startHost :: "string option"

text \<open>\<^verbatim>\<open>request.loadedUrl ?? request.url\<close>.\<close>

definition page_url :: "request \<Rightarrow> string" where
  "page_url request = (case req_loadedUrl request of Some u \<Rightarrow> u | None \<Rightarrow> req_url request)"

text \<open>\<^verbatim>\<open>$(sel).first().text()\<close>: the empty string when nothing matches.\<close>

definition first_text :: "document \<Rightarrow> string \<Rightarrow> string" where
  "first_text doc sel = (case sel_texts doc sel of [] \<Rightarrow> [] | t # _ \<Rightarrow> t)"

text \<open>\<^verbatim>\<open>$(sel).attr(a) || ''\<close>.\<close>

definition attr_or_empty :: "document \<Rightarrow> string \<Rightarrow> string \<Rightarrow> string" where
  "attr_or_empty doc sel a = (case sel_attr doc sel a of Some v \<Rightarrow> v | None \<Rightarrow> [])"

section \<open>The game record and its extraction from the page\<close>

text \<open>The object \<^verbatim>\<open>record\<close> of \<^verbatim>\<open>extractGameFromPageCheerio\<close>. The three rating
  fields and the collections can hold values of the API payload after enrichment.
  The literal of lines 111 to 123 has no \<^verbatim>\<open>geek_rating\<close> key: reading it gives
  \<^verbatim>\<open>undefined\<close>.\<close>

record game_record =
  name :: string
  bgg_id :: string
  year :: string
  avg_rating :: jsval
  num_voters :: jsval
  designers :: "jsval list"
  mechanics :: "jsval list"
  categories :: "jsval list"
  description :: string
  url :: string
  extracted_at :: string
  geek_rating :: jsval

text \<open>Lines 88 to 99.\<close>

definition resolve_bgg_id :: "document \<Rightarrow> string" where
  \<open>resolve_bgg_id doc =
     (let canonical = attr_or_empty doc ''link[rel="canonical"]'' ''href'';
          bggId = canonical_bgg_id canonical
      in if bggId = []
         then meta_bgg_id bggId (attr_or_empty doc ''meta[name="og:url"]'' ''content'')
         else bggId)\<close>

text \<open>Lines 82 to 123; \<open>now\<close> is \<^verbatim>\<open>new Date().toISOString()\<close>.\<close>

definition extract_record :: "document \<Rightarrow> request \<Rightarrow> string \<Rightarrow> game_record" where
  \<open>extract_record doc request now =
     (let heading = trim (first_text doc ''#mainbody h1, .game-title, .header-title'');
          bggId = resolve_bgg_id doc
      in \<lparr> name = (if heading \<noteq> [] then heading
                   else attr_or_empty doc ''meta[property="og:title"]'' ''content''),
            bgg_id = bggId,
            year = digits_only (first_text doc ''.gameplay .year, .game-title .year''),
            avg_rating =
              JStr (trim (first_text doc ''.gameplay .rating .rating-value, .game_rating .value'')),
            num_voters = JStr (digits_only (first_text doc ''a[href$="/ratings"]'')),
            designers =
              map (\<lambda>t. JStr (trim t))
                (sel_texts doc ''.gameplay .designer a, .wiki_rightcol a[href*="designer"]''),
            mechanics =
              map (\<lambda>t. JStr (trim t))
                (sel_texts doc ''a[href*="/boardgamemechanic/"], .gameplay .mechanic a''),
            categories =
              map (\<lambda>t. JStr (trim t))
                (sel_texts doc ''a[href*="/boardgamecategory/"], .gameplay .category a''),
            description =
              take 2000 (trim (first_text doc ''#mainbody #description, #overview, .game-description'')),
            url = page_url request,
            extracted_at = now,
            geek_rating = JUndefined \<rparr>)\<close>

section \<open>Enrichment from the API payload\<close>

text \<open>The \<^verbatim>\<open>input\<close> options the handlers read.\<close>

record input =
  useBggApi :: bool
  followInternalOnly :: bool

text \<open>
  What the collaborators outside the repository answer: the HTTP exchange with the XML
  API for a request URL, what a write to the key-value store under a key does (\<open>None\<close>
  where it succeeds, \<open>Some e\<close> where \<^verbatim>\<open>kv.setValue\<close> rejects with the value \<open>e\<close>), the
  clock (one reading for a run of a handler; no claim depends on it), and the
  \<^verbatim>\<open>URL\<close> constructor (\<open>None\<close> where it throws): \<open>url_host u\<close> is
  \<^verbatim>\<open>new URL(u).host\<close> and \<open>url_resolve base href\<close> is
  \<^verbatim>\<open>new URL(href, base).toString()\<close>.
\<close>

datatype xml_result = BodyFailed | Parsed jsval

datatype http_exchange = RequestFailed | Responded bool xml_result

record world =
  fetch_exchange :: "string \<Rightarrow> http_exchange"
  kv_rejects :: "string \<Rightarrow> jsval option"
  clock :: string
  url_host :: "string \<Rightarrow> string option"
  url_resolve :: "string \<Rightarrow> string \<Rightarrow> string option"

text \<open>\<^verbatim>\<open>fetchBggApi\<close>: \<open>Responded ok body\<close> carries \<^verbatim>\<open>res.ok\<close> and the outcome of
  reading and parsing the body; every failure is caught and gives \<^verbatim>\<open>null\<close>. The
  identifier consists of digits (lemma \<open>resolve_bgg_id_digits\<close>), which
  \<^verbatim>\<open>encodeURIComponent\<close> leaves as they are.\<close>

definition thing_url :: "string \<Rightarrow> string" where
  "thing_url bggId = ''https://boardgamegeek.com/xmlapi2/thing?id='' @ bggId @ ''&stats=1''"

definition fetchBggApi :: "world \<Rightarrow> string \<Rightarrow> jsval" where
  "fetchBggApi w bggId =
     (case fetch_exchange w (thing_url bggId) of
        RequestFailed \<Rightarrow> JNull
      | Responded ok body \<Rightarrow>
          if \<not> ok then JNull
          else (case body of BodyFailed \<Rightarrow> JNull | Parsed json \<Rightarrow> json))"

text \<open>Lines 130 to 137: \<^verbatim>\<open>Object.assign(record, {...})\<close>.\<close>

definition assign_enrichment :: "game_record \<Rightarrow> normalized \<Rightarrow> game_record" where
  "assign_enrichment record n =
     record
       \<lparr> geek_rating := js_or (js_or (i_geek_rating n) (geek_rating record)) (JStr []),
         avg_rating := js_or (i_avg_rating n) (avg_rating record),
         num_voters := js_or (i_num_voters n) (num_voters record),
         designers := (if i_designers n \<noteq> [] then i_designers n else designers record),
         mechanics := (if i_mechanics n \<noteq> [] then i_mechanics n else mechanics record),
         categories := (if i_categories n \<noteq> [] then i_categories n else categories record) \<rparr>"

text \<open>Lines 128 to 137 as a function of the record and the payload \<^verbatim>\<open>apiJson\<close>: the
  record after the enrichment step, or the exception \<^verbatim>\<open>normalizeBggApi\<close> throws.\<close>

definition reconcile :: "game_record \<Rightarrow> jsval \<Rightarrow> js_error + game_record" where
  "reconcile record apiJson =
     (case normalizeBggApi apiJson of
        Inl e \<Rightarrow> Inl e
      | Inr None \<Rightarrow> Inr record
      | Inr (Some n) \<Rightarrow> Inr (assign_enrichment record n))"

section \<open>The sinks and the game page handler\<close>

text \<open>A row of a listing page, as pushed to the dataset; \<open>row_url\<close> is \<open>None\<close> for
  \<^verbatim>\<open>null\<close>.\<close>

record row_record =
  row_name :: string
  row_url :: "string option"
  row_rank :: string
  row_hotness :: string
  row_source_page :: string
  row_extracted_at :: string

datatype dataset_item = GameItem game_record | RowItem row_record

text \<open>A log entry: the message, and for the warning of line 142 the data
  \<^verbatim>\<open>{ bggId, error: e.message }\<close>.\<close>

datatype log_entry = LogInfo string | LogWarning string string jsval

text \<open>
  The dataset (an append-only list; \<^verbatim>\<open>pushData\<close> is taken to succeed), the calls of
  \<^verbatim>\<open>kv.setValue\<close> in order (key, value, content type), the store they leave (latest
  write first), the log and the request queue.
\<close>

record sinks =
  dataset :: "dataset_item list"
  kv_calls :: "(string \<times> jsval \<times> string) list"
  kv_store :: "(string \<times> jsval) list"
  log :: "log_entry list"
  queue :: "request list"

definition empty_sinks :: sinks where
  "empty_sinks = \<lparr> dataset = [], kv_calls = [], kv_store = [], log = [], queue = [] \<rparr>"

definition pushData :: "dataset_item \<Rightarrow> sinks \<Rightarrow> sinks" where
  "pushData x s = s\<lparr>dataset := dataset s @ [x]\<rparr>"

definition log_add :: "log_entry \<Rightarrow> sinks \<Rightarrow> sinks" where
  "log_add e s = s\<lparr>log := log s @ [e]\<rparr>"

text \<open>\<^verbatim>\<open>kv.setValue(key, value, { contentType })\<close>: the call is made; the first
  component is the value it rejects with, \<open>None\<close> where the write succeeds.\<close>

definition kv_setValue ::
    "world \<Rightarrow> string \<Rightarrow> jsval \<Rightarrow> string \<Rightarrow> sinks \<Rightarrow> jsval option \<times> sinks" where
  "kv_setValue w key v ct s =
     (let s1 = s\<lparr>kv_calls := kv_calls s @ [(key, v, ct)]\<rparr>
      in case kv_rejects w key of
           None \<Rightarrow> (None, s1\<lparr>kv_store := (key, v) # filter (\<lambda>p. fst p \<noteq> key) (kv_store s1)\<rparr>)
         | Some e \<Rightarrow> (Some e, s1))"

text \<open>Lines 139 to 143: the write under \<^verbatim>\<open>`games/${bggId}`\<close>; its exception \<open>e\<close> is
  caught and logged with \<^verbatim>\<open>e.message\<close>. Reading \<^verbatim>\<open>.message\<close> of
  \<^verbatim>\<open>null\<close> or \<^verbatim>\<open>undefined\<close> throws inside the \<^verbatim>\<open>catch\<close> block, and that
  exception escapes.\<close>

definition save_api_json :: "world \<Rightarrow> string \<Rightarrow> jsval \<Rightarrow> sinks \<Rightarrow> js_error + sinks" where
  "save_api_json w bggId apiJson s =
     (case kv_setValue w (''games/'' @ bggId) apiJson ''application/json'' s of
        (None, s') \<Rightarrow> Inr s'
      | (Some e, s') \<Rightarrow>
          if e = JUndefined \<or> e = JNull then Inl TypeError
          else Inr (log_add (LogWarning ''Failed to save BGG API JSON to KV'' bggId
                      (getprop e ''message'')) s'))"

text \<open>\<^verbatim>\<open>extractGameFromPageCheerio\<close>: the record returned and the sinks after the run,
  or the exception that escapes.\<close>

definition extractGameFromPageCheerio ::
    "input \<Rightarrow> world \<Rightarrow> document \<Rightarrow> request \<Rightarrow> sinks \<Rightarrow> js_error + (game_record \<times> sinks)" where
  "extractGameFromPageCheerio inp w doc request s =
     (let s0 = log_add (LogInfo ''Extracting game page (cheerio)'') s;
          record = extract_record doc request (clock w);
          bggId = bgg_id record
      in if useBggApi inp \<and> bggId \<noteq> [] then
           (let apiJson = fetchBggApi w bggId
            in case normalizeBggApi apiJson of
                 Inl e \<Rightarrow> Inl e
               | Inr None \<Rightarrow> Inr (record, pushData (GameItem record) s0)
               | Inr (Some n) \<Rightarrow>
                   (let record' = assign_enrichment record n
                    in case save_api_json w bggId apiJson s0 of
                         Inl e \<Rightarrow> Inl e
                       | Inr s1 \<Rightarrow> Inr (record', pushData (GameItem record') s1)))
         else Inr (record, pushData (GameItem record) s0))"

section \<open>The listing page handler\<close>

text \<open>Lines 160 to 168. \<open>start_host\<close> is
  \<^verbatim>\<open>request.userData.startHost || new URL(request.url).host\<close>, \<open>None\<close> where the
  constructor throws; the \<^verbatim>\<open>catch\<close> returns \<^verbatim>\<open>null\<close>.\<close>

definition start_host :: "world \<Rightarrow> request \<Rightarrow> string option" where
  "start_host w request =
     (case startHost request of
        Some h \<Rightarrow> if h \<noteq> [] then Some h else url_host w (req_url request)
      | None \<Rightarrow> url_host w (req_url request))"

definition transformRequestFunction :: "input \<Rightarrow> world \<Rightarrow> request \<Rightarrow> request \<Rightarrow> request option" where
  "transformRequestFunction inp w request r =
     (if followInternalOnly inp then
        (case start_host w request of
           None \<Rightarrow> None
         | Some sh \<Rightarrow>
             (case url_host w (req_url r) of
                None \<Rightarrow> None
              | Some h \<Rightarrow> if h \<noteq> sh then None else Some r))
      else Some r)"

text \<open>The request options \<^verbatim>\<open>enqueueLinks\<close> builds for a link it found: the call of
  lines 157 to 170 passes no \<^verbatim>\<open>userData\<close>, so they carry no \<^verbatim>\<open>startHost\<close>.\<close>

definition link_request :: "string \<Rightarrow> request" where
  "link_request c = \<lparr> req_url = c, req_loadedUrl = None, startHost = None \<rparr>"

definition enqueueLinks :: "input \<Rightarrow> world \<Rightarrow> document \<Rightarrow> request \<Rightarrow> sinks \<Rightarrow> sinks" where
  "enqueueLinks inp w doc request s =
     s\<lparr>queue := queue s @
          List.map_filter (\<lambda>c. transformRequestFunction inp w request (link_request c))
            (link_candidates doc)\<rparr>"

text \<open>\<^verbatim>\<open>$row.find('a[href*="/boardgame/"], a[href*="/thing/"]')\<close>.\<close>

definition item_anchor :: "string option \<times> string \<Rightarrow> bool" where
  "item_anchor a =
     (case fst a of
        Some h \<Rightarrow> contains ''/boardgame/'' h \<or> contains ''/thing/'' h
      | None \<Rightarrow> False)"

definition item_anchors :: "row_element \<Rightarrow> (string option \<times> string) list" where
  "item_anchors row = filter item_anchor (anchors row)"

text \<open>\<^verbatim>\<open>.first().attr('href')\<close> and \<^verbatim>\<open>.first().text()\<close> on a selection.\<close>

definition row_link :: "row_element \<Rightarrow> string option" where
  "row_link row = (case item_anchors row of [] \<Rightarrow> None | a # _ \<Rightarrow> fst a)"

definition head_text :: "string list \<Rightarrow> string" where
  "head_text ts = (case ts of [] \<Rightarrow> [] | t # _ \<Rightarrow> t)"

text \<open>\<^verbatim>\<open>resolveUrl\<close>, and line 178: \<^verbatim>\<open>link ? resolveUrl(url, link) : null\<close>.\<close>

definition resolveUrl :: "world \<Rightarrow> string \<Rightarrow> string \<Rightarrow> string option" where
  "resolveUrl w base href = url_resolve w base href"

definition row_abs :: "world \<Rightarrow> string \<Rightarrow> row_element \<Rightarrow> string option" where
  "row_abs w u row =
     (case row_link row of
        None \<Rightarrow> None
      | Some link \<Rightarrow> if link \<noteq> [] then resolveUrl w u link else None)"

text \<open>Lines 179 to 190: the object \<^verbatim>\<open>rowRecord\<close>.\<close>

definition rowRecord :: "world \<Rightarrow> string \<Rightarrow> row_element \<Rightarrow> row_record" where
  "rowRecord w u row =
     \<lparr> row_name = trim (head_text (map snd (item_anchors row))),
       row_url = row_abs w u row,
       row_rank = digits_only (trim (head_text (rank_texts row))),
       row_hotness = trim (head_text (hotness_texts row)),
       row_source_page = u,
       row_extracted_at = clock w \<rparr>"

text \<open>\<^verbatim>\<open>if (abs)\<close>: neither \<^verbatim>\<open>null\<close> nor the empty string.\<close>

definition abs_truthy :: "string option \<Rightarrow> bool" where
  "abs_truthy a = (case a of Some u \<Rightarrow> u \<noteq> [] | None \<Rightarrow> False)"

text \<open>Lines 174 to 195: the loop over the rows.\<close>

fun rows_loop :: "world \<Rightarrow> string \<Rightarrow> row_element list \<Rightarrow> sinks \<Rightarrow> sinks" where
  "rows_loop w u [] s = s"
| "rows_loop w u (row # rows) s =
     rows_loop w u rows
       (if abs_truthy (row_abs w u row) then pushData (RowItem (rowRecord w u row)) s else s)"

definition listingPageHandler :: "input \<Rightarrow> world \<Rightarrow> document \<Rightarrow> request \<Rightarrow> sinks \<Rightarrow> sinks" where
  "listingPageHandler inp w doc request s =
     (let u = page_url request;
          s0 = log_add (LogInfo ''Processing listing'') s;
          s1 = enqueueLinks inp w doc request s0
      in rows_loop w u (row_elems doc) s1)"

section \<open>Seeds and hops\<close>

text \<open>Lines 277 to 279: one request per start URL, carrying its host where the URL
  parses.\<close>

definition startRequest :: "world \<Rightarrow> string \<Rightarrow> request" where
  "startRequest w u = \<lparr> req_url = u, req_loadedUrl = None, startHost = url_host w u \<rparr>"

definition startRequests :: "world \<Rightarrow> string list \<Rightarrow> request list" where
  "startRequests w startUrls = map (startRequest w) startUrls"

text \<open>A chain of hops: on the page of \<open>request\<close> the link \<open>c\<close> is found and passed through
  \<open>transformRequestFunction\<close>; the request that comes out is visited next (the crawler
  sets its \<^verbatim>\<open>loadedUrl\<close> to \<open>l\<close>), and so on. \<open>None\<close> when a link of the chain is
  dropped.\<close>

fun crawl_path :: "input \<Rightarrow> world \<Rightarrow> request \<Rightarrow> (string \<times> string option) list \<Rightarrow> request option" where
  "crawl_path inp w request [] = Some request"
| "crawl_path inp w request ((c, l) # hops) =
     (case transformRequestFunction inp w request (link_request c) of
        None \<Rightarrow> None
      | Some r \<Rightarrow> crawl_path inp w (r\<lparr>req_loadedUrl := l\<rparr>) hops)"

section \<open>Sample inputs\<close>

text \<open>
  Concrete inputs on which the theorems below are evaluated. \<open>sample_host\<close> and
  \<open>sample_resolve\<close> stand in for the \<^verbatim>\<open>URL\<close> constructor on the few URLs used here:
  an \<^verbatim>\<open>https\<close> URL has the host between the scheme and the next slash, and a
  reference starting with a slash is resolved against the origin of the base.
\<close>

definition sample_host :: "string \<Rightarrow> string option" where
  "sample_host u =
     (if starts_with ''https://'' u
      then Some (takeWhile (\<lambda>c. c \<noteq> CHR ''/'') (drop 8 u)) else None)"

definition sample_resolve :: "string \<Rightarrow> string \<Rightarrow> string option" where
  "sample_resolve base href =
     (if starts_with ''https://'' href then Some href
      else if starts_with ''/'' href then
        (case sample_host base of Some h \<Rightarrow> Some (''https://'' @ h @ href) | None \<Rightarrow> None)
      else None)"

text \<open>A payload with an item: one designer link (a single object), an average rating,
  no geek rating and no voter count.\<close>

definition sample_payload :: jsval where
  "sample_payload =
     JObj [(''thing'', JObj
       [(''id'', JStr ''42''),
        (''name'', JObj [(''value'', JStr ''Api name'')]),
        (''yearpublished'', JObj [(''value'', JStr ''1999'')]),
        (''description'', JStr ''Api text''),
        (''link'', JObj [(''type'', JStr ''boardgamedesigner''), (''value'', JStr ''Alice'')]),
        (''statistics'', JObj [(''ratings'', JObj [(''average'', JObj [(''value'', JStr ''7.5'')])])])])]"

text \<open>The API answers for identifier 42 only; the key-value store rejects every write
  with an error object. In \<open>sample_world_null\<close> it rejects with \<^verbatim>\<open>null\<close>.\<close>

definition sample_world :: world where
  "sample_world =
     \<lparr> fetch_exchange =
         (\<lambda>u. if u = thing_url ''42'' then Responded True (Parsed sample_payload)
              else RequestFailed),
       kv_rejects = (\<lambda>k. Some (JObj [(''message'', JStr ''store down'')])),
       clock = ''2026-01-01T00:00:00.000Z'',
       url_host = sample_host,
       url_resolve = sample_resolve \<rparr>"


definition sample_input :: input where
  "sample_input = \<lparr> useBggApi = True, followInternalOnly = True \<rparr>"

text \<open>A game page with a heading, a canonical link, a voter count and two designers.\<close>

definition sample_game_doc :: "string \<Rightarrow> document" where
  \<open>sample_game_doc canonical =
     \<lparr> sel_texts =
         (\<lambda>sel. if sel = ''#mainbody h1, .game-title, .header-title'' then ['' Page name '']
                else if sel = ''a[href$="/ratings"]'' then [''1,234 ratings'']
                else if sel = ''.gameplay .designer a, .wiki_rightcol a[href*="designer"]''
                then [''Bob'', ''Alice'']
                else []),
       sel_attr =
         (\<lambda>sel a. if sel = ''link[rel="canonical"]'' \<and> a = ''href'' then Some canonical
                  else None),
       row_elems = [],
       link_candidates = [] \<rparr>\<close>

text \<open>A page that has nothing but a metadata tag: \<^verbatim>\<open>og:title\<close> with the given content,
  or \<^verbatim>\<open>og:url\<close> with the given content.\<close>

definition sample_meta_doc :: "string \<Rightarrow> string \<Rightarrow> document" where
  \<open>sample_meta_doc sel0 content0 =
     \<lparr> sel_texts = (\<lambda>sel. []),
       sel_attr = (\<lambda>sel a. if sel = sel0 \<and> a = ''content'' then Some content0 else None),
       row_elems = [],
       link_candidates = [] \<rparr>\<close>

text \<open>A listing page with two rows: the first links to a game and has the rank text
  \<^verbatim>\<open>1.\<close>, the second has a link that is no game link and no rank.\<close>

definition sample_listing_doc :: document where
  "sample_listing_doc =
     \<lparr> sel_texts = (\<lambda>sel. []),
       sel_attr = (\<lambda>sel a. None),
       row_elems =
         [\<lparr> anchors = [(Some ''/boardgame/42'', '' Game '')], rank_texts = [''1.''],
             hotness_texts = [] \<rparr>,
          \<lparr> anchors = [(Some ''/about'', ''About'')], rank_texts = [], hotness_texts = [] \<rparr>],
       link_candidates = [''https://a.test/boardgame/42'', ''https://b.test/boardgame/7''] \<rparr>"

definition sample_request :: "string \<Rightarrow> request" where
  "sample_request u = \<lparr> req_url = u, req_loadedUrl = None, startHost = None \<rparr>"

text \<open>The record \<open>extract_record\<close> reads from \<open>sample_game_doc ''/boardgame/42''\<close>, what
  \<open>normalizeBggApi\<close> makes of \<open>sample_payload\<close>, and the record after enrichment.\<close>

definition sample_html_record :: game_record where
  "sample_html_record =
     \<lparr> name = ''Page name'', bgg_id = ''42'', year = [], avg_rating = JStr [],
       num_voters = JStr ''1234'', designers = [JStr ''Bob'', JStr ''Alice''],
       mechanics = [], categories = [], description = [],
       url = ''https://a.test/boardgame/42'',
       extracted_at = ''2026-01-01T00:00:00.000Z'', geek_rating = JUndefined \<rparr>"

definition sample_normalized :: normalized where
  "sample_normalized =
     \<lparr> i_bgg_id = JStr ''42'', i_name = JStr ''Api name'', i_year = JStr ''1999'',
       i_description = JStr ''Api text'', i_min_players = JStr [], i_max_players = JStr [],
       i_playing_time = JStr [], i_designers = [JStr ''Alice''], i_mechanics = [],
       i_categories = [], i_geek_rating = JNull,
       i_avg_rating = JObj [(''value'', JStr ''7.5'')], i_num_voters = JUndefined \<rparr>"

definition sample_enriched_record :: game_record where
  "sample_enriched_record =
     sample_html_record
       \<lparr> avg_rating := JObj [(''value'', JStr ''7.5'')], designers := [JStr ''Alice''],
         geek_rating := JStr [] \<rparr>"

text \<open>\<open>sample_payload\<close> with its one link held in an array.\<close>

definition sample_payload_array :: jsval where
  "sample_payload_array =
     JObj [(''thing'', JObj
       [(''id'', JStr ''42''),
        (''name'', JObj [(''value'', JStr ''Api name'')]),
        (''yearpublished'', JObj [(''value'', JStr ''1999'')]),
        (''description'', JStr ''Api text''),
        (''link'', JArr [JObj [(''type'', JStr ''boardgamedesigner''), (''value'', JStr ''Alice'')]]),
        (''statistics'', JObj [(''ratings'', JObj [(''average'', JObj [(''value'', JStr ''7.5'')])])])])]"


definition sample_row_record :: row_record where
  "sample_row_record =
     \<lparr> row_name = ''Game'', row_url = Some ''https://a.test/boardgame/42'', row_rank = ''1'',
       row_hotness = [], row_source_page = ''https://a.test/hot'',
       row_extracted_at = ''2026-01-01T00:00:00.000Z'' \<rparr>"

section \<open>Predicates of the claims\<close>

text \<open>The first game link of a row resolves against the URL of the listing: the row
  has such a link and the \<^verbatim>\<open>URL\<close> constructor accepts it.\<close>

text \<open>The serialisation \<^verbatim>\<open>new URL(href, base).toString()\<close> is never the empty
  string: it starts with the scheme.\<close>

definition serialises_nonempty :: "world \<Rightarrow> bool" where
  "serialises_nonempty w = (\<forall>b l a. url_resolve w b l = Some a \<longrightarrow> a \<noteq> [])"


text \<open>Reading the name of an item does not throw: \<^verbatim>\<open>t.name\<close> is no array, or an
  array whose first element is neither missing, \<^verbatim>\<open>null\<close> nor \<^verbatim>\<open>undefined\<close>.\<close>

definition name_readable :: "jsval \<Rightarrow> bool" where
  "name_readable t =
     (case getprop t ''name'' of
        JArr xs \<Rightarrow> (case xs of [] \<Rightarrow> False | x # _ \<Rightarrow> x \<noteq> JUndefined \<and> x \<noteq> JNull)
      | _ \<Rightarrow> True)"

text \<open>Two items agree on every property but \<^verbatim>\<open>link\<close>.\<close>

definition same_but_link :: "jsval \<Rightarrow> jsval \<Rightarrow> bool" where
  "same_but_link t t' = (\<forall>k. k \<noteq> ''link'' \<longrightarrow> getprop t k = getprop t' k)"

definition link_resolves :: "world \<Rightarrow> string \<Rightarrow> row_element \<Rightarrow> bool" where
  "link_resolves w u row =
     (case row_link row of None \<Rightarrow> False | Some l \<Rightarrow> url_resolve w u l \<noteq> None)"


section \<open>Facts about the sample inputs\<close>

lemma sample_extract:
  "extract_record (sample_game_doc ''/boardgame/42'') (sample_request ''https://a.test/boardgame/42'')
     (clock sample_world) = sample_html_record"
  by code_simp

lemma sample_normalize: "normalizeBggApi sample_payload = Inr (Some sample_normalized)"
  by code_simp

lemma sample_fetch: "fetchBggApi sample_world ''42'' = sample_payload"
  by code_simp

section \<open>Normalisation of the payload\<close>

lemma normalize_absent_iff:
  "normalizeBggApi json = Inr None \<longleftrightarrow> (\<not> truthy json \<or> \<not> truthy (getprop json ''thing''))"
  by (auto simp: normalizeBggApi_def Let_def split: sum.splits)

text \<open>A payload is present when it and its item are truthy and reading the name does not
  throw; \<^verbatim>\<open>xml2js\<close> builds no empty array and no array holding \<^verbatim>\<open>null\<close>, so on its
  output the name never throws.\<close>

lemma normalize_present_iff:
  "(\<exists>n. normalizeBggApi json = Inr (Some n)) \<longleftrightarrow>
     truthy json \<and> truthy (getprop json ''thing'') \<and>
     (\<exists>v. thing_name (getprop json ''thing'') = Inr v)"
  by (auto simp: normalizeBggApi_def Let_def split: sum.splits)

lemma thing_name_throws_iff:
  "(\<exists>e. thing_name t = Inl e) \<longleftrightarrow>
     (\<exists>xs. getprop t ''name'' = JArr xs \<and> (xs = [] \<or> hd xs = JUndefined \<or> hd xs = JNull))"
  by (auto simp: thing_name_def split: jsval.splits list.splits)

lemma fetch_failed_null:
  "fetch_exchange w (thing_url bggId) = RequestFailed \<or>
   (\<exists>body. fetch_exchange w (thing_url bggId) = Responded False body) \<or>
   fetch_exchange w (thing_url bggId) = Responded True BodyFailed
   \<Longrightarrow> fetchBggApi w bggId = JNull"
  by (auto simp: fetchBggApi_def)

lemma fetch_parsed:
  "fetch_exchange w (thing_url bggId) = Responded True (Parsed json) \<Longrightarrow> fetchBggApi w bggId = json"
  by (simp add: fetchBggApi_def)

lemma push_link_falsy: "\<not> truthy l \<Longrightarrow> push_link l item = item"
  by (simp add: push_link_def)

lemma push_link_truthy:
  "truthy l \<Longrightarrow>
   push_link l item =
     item\<lparr> i_designers := i_designers item @
               (if getprop l ''type'' = JStr ''boardgamedesigner'' then [display_value l] else []),
           i_mechanics := i_mechanics item @
               (if getprop l ''type'' = JStr ''boardgamemechanic'' then [display_value l] else []),
           i_categories := i_categories item @
               (if getprop l ''type'' = JStr ''boardgamecategory'' then [display_value l] else []) \<rparr>"
  by (simp add: push_link_def Let_def)

lemma links_of_object: "getprop t ''link'' = JObj l \<Longrightarrow> links_of t = [JObj l]"
  by (simp add: links_of_def)

lemma links_of_array: "getprop t ''link'' = JArr ls \<Longrightarrow> links_of t = ls"
  by (simp add: links_of_def)

lemma thing_name_cong:
  "getprop t ''name'' = getprop t' ''name'' \<Longrightarrow> thing_name t = thing_name t'"
  by (simp add: thing_name_def)

lemma value_of_cong: "getprop t k = getprop t' k \<Longrightarrow> value_of t k = value_of t' k"
  by (simp add: value_of_def)

lemma getprop_object_receiver: "getprop v k = JObj l \<Longrightarrow> truthy v"
  by (cases v) (auto split: if_splits)

lemma thing_receiver: "truthy (getprop v ''thing'') \<Longrightarrow> truthy v"
  by (cases v) (auto split: if_splits)

lemma getprop_array_receiver: "getprop v k = JArr l \<Longrightarrow> truthy v"
  by (cases v) (auto split: if_splits)

text \<open>Two payloads whose items agree on every property but \<^verbatim>\<open>link\<close> and have the same
  list of links are normalised alike.\<close>

lemma normalize_cong:
  assumes "truthy json" "truthy json'"
    and "truthy (getprop json ''thing'')" "truthy (getprop json' ''thing'')"
    and "\<forall>k. k \<noteq> ''link'' \<longrightarrow> getprop (getprop json ''thing'') k = getprop (getprop json' ''thing'') k"
    and "links_of (getprop json ''thing'') = links_of (getprop json' ''thing'')"
  shows "normalizeBggApi json = normalizeBggApi json'"
proof -
  let ?t = "getprop json ''thing''" and ?t' = "getprop json' ''thing''"
  have p: "getprop ?t ''name'' = getprop ?t' ''name''"
    "getprop ?t ''id'' = getprop ?t' ''id''"
    "getprop ?t ''yearpublished'' = getprop ?t' ''yearpublished''"
    "getprop ?t ''description'' = getprop ?t' ''description''"
    "getprop ?t ''minplayers'' = getprop ?t' ''minplayers''"
    "getprop ?t ''maxplayers'' = getprop ?t' ''maxplayers''"
    "getprop ?t ''playingtime'' = getprop ?t' ''playingtime''"
    "getprop ?t ''statistics'' = getprop ?t' ''statistics''"
    using assms(5) by simp_all
  have n: "thing_name ?t = thing_name ?t'"
    by (rule thing_name_cong) (rule p(1))
  have v: "value_of ?t ''yearpublished'' = value_of ?t' ''yearpublished''"
    "value_of ?t ''minplayers'' = value_of ?t' ''minplayers''"
    "value_of ?t ''maxplayers'' = value_of ?t' ''maxplayers''"
    "value_of ?t ''playingtime'' = value_of ?t' ''playingtime''"
    by (simp_all add: value_of_def p)
  show ?thesis
    using assms(1-4) unfolding normalizeBggApi_def Let_def n v p(2,4,8) assms(6) by simp
qed

text \<open>When the item holds one link object, each collection of the normalised item is
  empty or holds the display value of that link.\<close>

lemma normalize_single_link:
  assumes "getprop (getprop json ''thing'') ''link'' = JObj l"
    and "normalizeBggApi json = Inr (Some n)"
  shows "i_designers n =
           (if getprop (JObj l) ''type'' = JStr ''boardgamedesigner'' then [display_value (JObj l)] else [])"
    and "i_mechanics n =
           (if getprop (JObj l) ''type'' = JStr ''boardgamemechanic'' then [display_value (JObj l)] else [])"
    and "i_categories n =
           (if getprop (JObj l) ''type'' = JStr ''boardgamecategory'' then [display_value (JObj l)] else [])"
  using assms
  by (auto simp: normalizeBggApi_def Let_def links_of_object push_link_truthy
           split: if_splits sum.splits)

section \<open>Reconciliation\<close>

lemma reconcile_absent:
  "\<not> truthy apiJson \<or> \<not> truthy (getprop apiJson ''thing'') \<Longrightarrow> reconcile h apiJson = Inr h"
  using normalize_absent_iff[of apiJson] by (simp add: reconcile_def)

lemma reconcile_present:
  "normalizeBggApi apiJson = Inr (Some n) \<Longrightarrow> reconcile h apiJson = Inr (assign_enrichment h n)"
  by (simp add: reconcile_def)

text \<open>The record the handler returns is what \<open>reconcile\<close> makes of the extracted record
  and the fetched payload; without enrichment it returns the extracted record.\<close>

lemma extract_game_record:
  "useBggApi inp \<Longrightarrow> bgg_id (extract_record doc request (clock w)) \<noteq> [] \<Longrightarrow>
   extractGameFromPageCheerio inp w doc request s = Inr (r, s') \<Longrightarrow>
   reconcile (extract_record doc request (clock w))
     (fetchBggApi w (bgg_id (extract_record doc request (clock w)))) = Inr r"
  by (auto simp: extractGameFromPageCheerio_def reconcile_def Let_def
           split: sum.splits option.splits)

lemma extract_game_no_enrichment:
  "\<not> useBggApi inp \<or> bgg_id (extract_record doc request (clock w)) = [] \<Longrightarrow>
   map_sum id fst (extractGameFromPageCheerio inp w doc request s) =
     Inr (extract_record doc request (clock w))"
  by (auto simp add: extractGameFromPageCheerio_def Let_def)

section \<open>Claims on normalisation and reconciliation\<close>

lemma name_readable_thing_name: "name_readable t \<Longrightarrow> \<exists>v. thing_name t = Inr v"
  by (auto simp: name_readable_def thing_name_def split: jsval.splits list.splits)

text \<open>
  C10. When the item of a parsed payload holds exactly one link element, a single object
  and not an array, \<open>normalizeBggApi\<close> treats it as the array of that one element: where
  the name of the item can be read, the payload is normalised to an item, and a payload
  that differs only in holding the link inside an array is normalised to the same item.
  The display value of the link (\<^verbatim>\<open>l.value || l.name || ''\<close>) is the one entry of the
  collection that matches its \<^verbatim>\<open>type\<close>, and the other collections are empty; a link of
  any other type leaves all three empty.
\<close>

theorem single_link_as_one_element_array:
  assumes "getprop (getprop json ''thing'') ''link'' = JObj l"
    and "getprop (getprop json' ''thing'') ''link'' = JArr [JObj l]"
    and "same_but_link (getprop json ''thing'') (getprop json' ''thing'')"
    and "name_readable (getprop json ''thing'')"
  shows "\<exists>n. normalizeBggApi json = Inr (Some n) \<and> normalizeBggApi json' = Inr (Some n) \<and>
            i_designers n =
              (if getprop (JObj l) ''type'' = JStr ''boardgamedesigner''
               then [if truthy (getprop (JObj l) ''value'') then getprop (JObj l) ''value''
                     else if truthy (getprop (JObj l) ''name'') then getprop (JObj l) ''name''
                     else JStr []]
               else []) \<and>
            i_mechanics n =
              (if getprop (JObj l) ''type'' = JStr ''boardgamemechanic''
               then [if truthy (getprop (JObj l) ''value'') then getprop (JObj l) ''value''
                     else if truthy (getprop (JObj l) ''name'') then getprop (JObj l) ''name''
                     else JStr []]
               else []) \<and>
            i_categories n =
              (if getprop (JObj l) ''type'' = JStr ''boardgamecategory''
               then [if truthy (getprop (JObj l) ''value'') then getprop (JObj l) ''value''
                     else if truthy (getprop (JObj l) ''name'') then getprop (JObj l) ''name''
                     else JStr []]
               else [])"
proof -
  have t: "truthy (getprop json ''thing'')" "truthy (getprop json' ''thing'')"
    using assms(1,2) by (auto dest: getprop_object_receiver getprop_array_receiver)
  have j: "truthy json" "truthy json'"
    using t by (auto dest: thing_receiver)
  have l: "links_of (getprop json ''thing'') = links_of (getprop json' ''thing'')"
    using assms(1,2) by (simp add: links_of_object links_of_array)
  have e: "normalizeBggApi json = normalizeBggApi json'"
    using j t assms(3)[unfolded same_but_link_def] l by (rule normalize_cong)
  obtain n where n: "normalizeBggApi json = Inr (Some n)"
    using normalize_present_iff[of json] j(1) t(1) name_readable_thing_name[OF assms(4)]
    by blast
  have d: "display_value (JObj l) =
      (if truthy (getprop (JObj l) ''value'') then getprop (JObj l) ''value''
       else if truthy (getprop (JObj l) ''name'') then getprop (JObj l) ''name''
       else JStr [])"
    by (simp add: display_value_def js_or_def)
  show ?thesis
    using n e normalize_single_link[OF assms(1) n] unfolding d by auto
qed

theorem single_link_as_one_element_array_witness:
  "getprop (getprop sample_payload ''thing'') ''link'' =
     JObj [(''type'', JStr ''boardgamedesigner''), (''value'', JStr ''Alice'')] \<and>
   getprop (getprop sample_payload_array ''thing'') ''link'' =
     JArr [JObj [(''type'', JStr ''boardgamedesigner''), (''value'', JStr ''Alice'')]] \<and>
   same_but_link (getprop sample_payload ''thing'') (getprop sample_payload_array ''thing'') \<and>
   name_readable (getprop sample_payload ''thing'') \<and>
   normalizeBggApi sample_payload = Inr (Some sample_normalized) \<and>
   normalizeBggApi sample_payload_array = Inr (Some sample_normalized) \<and>
   i_designers sample_normalized = [JStr ''Alice''] \<and>
   i_mechanics sample_normalized = [] \<and>
   i_categories sample_normalized = []"
proof -
  let ?l = "[(''type'', JStr ''boardgamedesigner''), (''value'', JStr ''Alice'')]"
  have h1: "getprop (getprop sample_payload ''thing'') ''link'' = JObj ?l"
    by (simp add: sample_payload_def)
  have h2: "getprop (getprop sample_payload_array ''thing'') ''link'' = JArr [JObj ?l]"
    by (simp add: sample_payload_array_def)
  have h3: "same_but_link (getprop sample_payload ''thing'') (getprop sample_payload_array ''thing'')"
    by (simp add: same_but_link_def sample_payload_def sample_payload_array_def)
  have h4: "name_readable (getprop sample_payload ''thing'')"
    by (simp add: name_readable_def sample_payload_def)
  from single_link_as_one_element_array[OF h1 h2 h3 h4]
  obtain n where n: "normalizeBggApi sample_payload = Inr (Some n)"
      "normalizeBggApi sample_payload_array = Inr (Some n)"
    and c: "i_designers n = [JStr ''Alice'']" "i_mechanics n = []" "i_categories n = []"
    by auto
  have "n = sample_normalized"
    using n(1) sample_normalize by simp
  with n c h1 h2 h3 h4 show ?thesis by blast
qed

text \<open>
  C1. When the API payload is absent (the request failed, the status was not a success,
  the body could not be read or parsed, or the parsed payload is empty or has no item),
  reconciliation is the identity: \<open>reconcile h\<close> returns \<open>h\<close>, and the handler returns the
  record it extracted from the page and pushes that record to the dataset.
\<close>

theorem absent_payload_keeps_html_record:
  assumes "fetch_exchange w (thing_url bggId) = RequestFailed \<or>
           (\<exists>body. fetch_exchange w (thing_url bggId) = Responded False body) \<or>
           fetch_exchange w (thing_url bggId) = Responded True BodyFailed \<or>
           (\<exists>json. fetch_exchange w (thing_url bggId) = Responded True (Parsed json) \<and>
                   (\<not> truthy json \<or> \<not> truthy (getprop json ''thing'')))"
  shows "reconcile h (fetchBggApi w bggId) = Inr h \<and>
         (bgg_id (extract_record doc request (clock w)) = bggId \<longrightarrow>
            map_sum id fst (extractGameFromPageCheerio inp w doc request s) =
              Inr (extract_record doc request (clock w)) \<and>
            map_sum id (\<lambda>p. dataset (snd p)) (extractGameFromPageCheerio inp w doc request s) =
              Inr (dataset s @ [GameItem (extract_record doc request (clock w))]))"
proof -
  have a: "\<not> truthy (fetchBggApi w bggId) \<or> \<not> truthy (getprop (fetchBggApi w bggId) ''thing'')"
    using assms by (auto simp: fetchBggApi_def)
  then have n: "normalizeBggApi (fetchBggApi w bggId) = Inr None"
    by (simp add: normalize_absent_iff)
  have "reconcile h (fetchBggApi w bggId) = Inr h"
    using a by (rule reconcile_absent)
  moreover have "bgg_id (extract_record doc request (clock w)) = bggId \<Longrightarrow>
      extractGameFromPageCheerio inp w doc request s =
        Inr (extract_record doc request (clock w),
             pushData (GameItem (extract_record doc request (clock w)))
               (log_add (LogInfo ''Extracting game page (cheerio)'') s))"
    using n by (simp add: extractGameFromPageCheerio_def Let_def)
  ultimately show ?thesis
    by (simp add: pushData_def log_add_def)
qed

theorem absent_payload_keeps_html_record_witness:
  "fetch_exchange sample_world (thing_url ''7'') = RequestFailed \<and>
   reconcile sample_html_record (fetchBggApi sample_world ''7'') = Inr sample_html_record"
proof -
  have h: "fetch_exchange sample_world (thing_url ''7'') = RequestFailed"
    by code_simp
  then have "fetch_exchange sample_world (thing_url ''7'') = RequestFailed \<or>
           (\<exists>body. fetch_exchange sample_world (thing_url ''7'') = Responded False body) \<or>
           fetch_exchange sample_world (thing_url ''7'') = Responded True BodyFailed \<or>
           (\<exists>json. fetch_exchange sample_world (thing_url ''7'') = Responded True (Parsed json) \<and>
                   (\<not> truthy json \<or> \<not> truthy (getprop json ''thing'')))"
    by blast
  from absent_payload_keeps_html_record[OF this, of sample_html_record] h
  show ?thesis by blast
qed

text \<open>
  C2. Whatever the API payload holds, the record after reconciliation has the name, the
  year and the description of the record extracted from the page.
\<close>

theorem reconcile_keeps_name_year_description:
  assumes "reconcile h apiJson = Inr r"
  shows "name r = name h \<and> year r = year h \<and> description r = description h"
  using assms
  by (auto simp: reconcile_def assign_enrichment_def split: sum.splits option.splits)

theorem reconcile_keeps_name_year_description_witness:
  "reconcile sample_html_record sample_payload = Inr sample_enriched_record \<and>
   i_name sample_normalized = JStr ''Api name'' \<and>
   name sample_enriched_record = ''Page name'' \<and>
   year sample_enriched_record = [] \<and>
   description sample_enriched_record = []"
proof -
  have h: "reconcile sample_html_record sample_payload = Inr sample_enriched_record"
    by code_simp
  have "name sample_html_record = ''Page name''" "year sample_html_record = []"
    "description sample_html_record = []" "i_name sample_normalized = JStr ''Api name''"
    by (simp_all add: sample_html_record_def sample_normalized_def)
  with reconcile_keeps_name_year_description[OF h] h show ?thesis by simp
qed

text \<open>
  C3. With a present payload, each of the collections designers, mechanics and categories
  of the reconciled record is the collection normalised from the API when that one is not
  empty, and the collection of the page record when it is empty.
\<close>

theorem api_collection_replaces_when_nonempty:
  assumes "normalizeBggApi apiJson = Inr (Some n)"
  shows "\<exists>r. reconcile h apiJson = Inr r \<and>
           designers r = (if i_designers n \<noteq> [] then i_designers n else designers h) \<and>
           mechanics r = (if i_mechanics n \<noteq> [] then i_mechanics n else mechanics h) \<and>
           categories r = (if i_categories n \<noteq> [] then i_categories n else categories h)"
  using assms by (simp add: reconcile_def assign_enrichment_def)

theorem api_collection_replaces_when_nonempty_witness:
  "normalizeBggApi sample_payload = Inr (Some sample_normalized) \<and>
   reconcile sample_html_record sample_payload = Inr sample_enriched_record \<and>
   designers sample_html_record = [JStr ''Bob'', JStr ''Alice''] \<and>
   designers sample_enriched_record = [JStr ''Alice''] \<and>
   mechanics sample_enriched_record = mechanics sample_html_record"
proof -
  have h: "normalizeBggApi sample_payload = Inr (Some sample_normalized)"
    by code_simp
  have r: "reconcile sample_html_record sample_payload = Inr sample_enriched_record"
    by code_simp
  have n: "i_designers sample_normalized = [JStr ''Alice'']" "i_mechanics sample_normalized = []"
    "designers sample_html_record = [JStr ''Bob'', JStr ''Alice'']"
    by (simp_all add: sample_normalized_def sample_html_record_def)
  from api_collection_replaces_when_nonempty[OF h, of sample_html_record] r n
  have "designers sample_enriched_record = [JStr ''Alice''] \<and>
        mechanics sample_enriched_record = mechanics sample_html_record"
    by auto
  with h r n show ?thesis by blast
qed

text \<open>
  C4, as the code has it. With a present payload, the average rating and the voter count
  of the reconciled record are the API values when these are present (neither
  \<^verbatim>\<open>undefined\<close>, \<^verbatim>\<open>null\<close> nor the empty string), and the values of the page record
  otherwise. The geek rating is the API value when present; otherwise it is the geek rating
  of the page record if that one is present, and the empty string if not.
\<close>

theorem api_rating_wins_when_present:
  assumes "normalizeBggApi apiJson = Inr (Some n)"
  shows "\<exists>r. reconcile h apiJson = Inr r \<and>
           avg_rating r = (if truthy (i_avg_rating n) then i_avg_rating n else avg_rating h) \<and>
           num_voters r = (if truthy (i_num_voters n) then i_num_voters n else num_voters h) \<and>
           geek_rating r =
             (if truthy (i_geek_rating n) then i_geek_rating n
              else if truthy (geek_rating h) then geek_rating h else JStr [])"
  using assms by (simp add: reconcile_def assign_enrichment_def js_or_def)

theorem api_rating_wins_when_present_witness:
  "normalizeBggApi sample_payload = Inr (Some sample_normalized) \<and>
   reconcile sample_html_record sample_payload = Inr sample_enriched_record \<and>
   avg_rating sample_enriched_record = JObj [(''value'', JStr ''7.5'')] \<and>
   num_voters sample_enriched_record = JStr ''1234'' \<and>
   geek_rating sample_enriched_record = JStr []"
proof -
  have h: "normalizeBggApi sample_payload = Inr (Some sample_normalized)"
    by code_simp
  have r: "reconcile sample_html_record sample_payload = Inr sample_enriched_record"
    by code_simp
  have n: "i_avg_rating sample_normalized = JObj [(''value'', JStr ''7.5'')]"
    "i_num_voters sample_normalized = JUndefined" "i_geek_rating sample_normalized = JNull"
    "num_voters sample_html_record = JStr ''1234''" "geek_rating sample_html_record = JUndefined"
    by (simp_all add: sample_normalized_def sample_html_record_def)
  from api_rating_wins_when_present[OF h, of sample_html_record] r n
  have "avg_rating sample_enriched_record = JObj [(''value'', JStr ''7.5'')] \<and>
        num_voters sample_enriched_record = JStr ''1234'' \<and>
        geek_rating sample_enriched_record = JStr []"
    by auto
  with h r show ?thesis by blast
qed

text \<open>
  C4 as stated fails for the geek rating. The record extracted from the sample page has
  no geek rating (\<^verbatim>\<open>undefined\<close>), the sample payload has none either, and the
  reconciled record has the empty string: the value of the page record is not kept.
\<close>

theorem geek_rating_not_kept_counterexample:
  "extract_record (sample_game_doc ''/boardgame/42'') (sample_request ''https://a.test/boardgame/42'')
     (clock sample_world) = sample_html_record \<and>
   normalizeBggApi sample_payload = Inr (Some sample_normalized) \<and>
   \<not> truthy (i_geek_rating sample_normalized) \<and>
   reconcile sample_html_record sample_payload = Inr sample_enriched_record \<and>
   geek_rating sample_html_record = JUndefined \<and>
   geek_rating sample_enriched_record = JStr [] \<and>
   geek_rating sample_enriched_record \<noteq> geek_rating sample_html_record"
  by code_simp

section \<open>The key-value store\<close>


lemma save_api_json_nullish:
  "kv_rejects w (''games/'' @ bggId) = Some e \<Longrightarrow> e = JUndefined \<or> e = JNull \<Longrightarrow>
   save_api_json w bggId apiJson s = Inl TypeError"
  by (auto simp: save_api_json_def kv_setValue_def Let_def)









section \<open>Listing rows\<close>

lemma contains_nonempty: "sub \<noteq> [] \<Longrightarrow> contains sub s \<Longrightarrow> s \<noteq> []"
  by (cases s) auto

text \<open>The link of a row contains \<^verbatim>\<open>/boardgame/\<close> or \<^verbatim>\<open>/thing/\<close>, so it is not
  the empty string.\<close>

lemma row_link_nonempty:
  assumes "row_link row = Some l"
  shows "l \<noteq> []"
proof -
  obtain a as where f: "filter item_anchor (anchors row) = a # as" and l: "fst a = Some l"
    using assms by (auto simp: row_link_def item_anchors_def split: list.splits)
  have "a \<in> set (filter item_anchor (anchors row))"
    by (simp add: f)
  then have "item_anchor a" by simp
  with l have "contains ''/boardgame/'' l \<or> contains ''/thing/'' l"
    by (simp add: item_anchor_def)
  then show ?thesis
    by (auto dest: contains_nonempty[rotated])
qed

lemma row_abs_link: "row_abs w u row = (case row_link row of None \<Rightarrow> None | Some l \<Rightarrow> url_resolve w u l)"
  by (auto simp: row_abs_def resolveUrl_def dest: row_link_nonempty split: option.splits)

lemma abs_truthy_resolves:
  assumes "serialises_nonempty w"
  shows "abs_truthy (row_abs w u row) = link_resolves w u row"
  using assms
  by (auto simp: serialises_nonempty_def row_abs_link abs_truthy_def link_resolves_def
           split: option.splits)

lemma rows_loop_dataset:
  "dataset (rows_loop w u rows s) =
     dataset s @ map (\<lambda>row. RowItem (rowRecord w u row))
       (filter (\<lambda>row. abs_truthy (row_abs w u row)) rows)"
  by (induction rows arbitrary: s) (simp_all add: pushData_def)

lemma digits_only_digits: "\<forall>c \<in> set (digits_only s). is_digit c"
  by (simp add: digits_only_def)

lemma digits_only_none: "(\<forall>c \<in> set s. \<not> is_digit c) \<Longrightarrow> digits_only s = []"
  by (simp add: digits_only_def filter_empty_conv)

lemma set_trim: "set (trim s) \<subseteq> set s"
proof -
  have "set (trim s) = set (dropWhile js_space (rev (dropWhile js_space s)))"
    by (simp add: trim_def)
  also have "\<dots> \<subseteq> set (rev (dropWhile js_space s))" by (rule set_dropWhileD[THEN subsetI])
  also have "\<dots> \<subseteq> set s" by (auto dest: set_dropWhileD)
  finally show ?thesis .
qed

lemma sample_resolve_nonempty: "sample_resolve b l = Some a \<Longrightarrow> a \<noteq> []"
  by (auto simp: sample_resolve_def starts_with_def split: if_splits option.splits)

text \<open>
  C6. A listing visit appends to the dataset exactly the rows whose first game link
  resolves against the URL of the listing, in document order: a row without such a link, or
  with one the \<^verbatim>\<open>URL\<close> constructor rejects, is left out, and nothing else decides. The
  rank of a row is made of digits only, and it is the empty string when the row has no rank
  text or one without digits; the rank plays no part in whether the row is recorded. (The
  serialisation of a resolved URL is never the empty string.)
\<close>

theorem listing_rows_with_resolvable_link:
  assumes "serialises_nonempty w"
  shows "dataset (listingPageHandler inp w doc request s) =
           dataset s @ map (\<lambda>row. RowItem (rowRecord w (page_url request) row))
             (filter (link_resolves w (page_url request)) (row_elems doc)) \<and>
         (link_resolves w u row \<longrightarrow>
            (\<exists>l a. row_link row = Some l \<and> url_resolve w u l = Some a \<and>
                   row_url (rowRecord w u row) = Some a)) \<and>
         (\<forall>c \<in> set (row_rank (rowRecord w u row)). is_digit c) \<and>
         ((\<forall>c \<in> set (head_text (rank_texts row)). \<not> is_digit c) \<longrightarrow>
            row_rank (rowRecord w u row) = [])"
proof (intro conjI impI)
  have "dataset (listingPageHandler inp w doc request s) =
          dataset s @ map (\<lambda>row. RowItem (rowRecord w (page_url request) row))
            (filter (\<lambda>row. abs_truthy (row_abs w (page_url request) row)) (row_elems doc))"
    by (simp add: listingPageHandler_def Let_def rows_loop_dataset enqueueLinks_def log_add_def)
  then show "dataset (listingPageHandler inp w doc request s) =
           dataset s @ map (\<lambda>row. RowItem (rowRecord w (page_url request) row))
             (filter (link_resolves w (page_url request)) (row_elems doc))"
    by (simp add: abs_truthy_resolves[OF assms])
next
  assume "link_resolves w u row"
  then show "\<exists>l a. row_link row = Some l \<and> url_resolve w u l = Some a \<and>
                   row_url (rowRecord w u row) = Some a"
    by (auto simp: link_resolves_def rowRecord_def row_abs_link split: option.splits)
next
  show "\<forall>c \<in> set (row_rank (rowRecord w u row)). is_digit c"
    by (simp add: rowRecord_def digits_only_def)
next
  assume "\<forall>c \<in> set (head_text (rank_texts row)). \<not> is_digit c"
  then have "\<forall>c \<in> set (trim (head_text (rank_texts row))). \<not> is_digit c"
    using set_trim by blast
  then show "row_rank (rowRecord w u row) = []"
    by (simp add: rowRecord_def digits_only_none)
qed

theorem listing_rows_with_resolvable_link_witness:
  "serialises_nonempty sample_world \<and>
   row_elems sample_listing_doc =
     [\<lparr> anchors = [(Some ''/boardgame/42'', '' Game '')], rank_texts = [''1.''], hotness_texts = [] \<rparr>,
      \<lparr> anchors = [(Some ''/about'', ''About'')], rank_texts = [], hotness_texts = [] \<rparr>] \<and>
   dataset (listingPageHandler sample_input sample_world sample_listing_doc
      (sample_request ''https://a.test/hot'') empty_sinks) = [RowItem sample_row_record]"
proof -
  have h: "serialises_nonempty sample_world"
    by (auto simp: serialises_nonempty_def sample_world_def dest: sample_resolve_nonempty)
  have r: "row_elems sample_listing_doc =
     [\<lparr> anchors = [(Some ''/boardgame/42'', '' Game '')], rank_texts = [''1.''], hotness_texts = [] \<rparr>,
      \<lparr> anchors = [(Some ''/about'', ''About'')], rank_texts = [], hotness_texts = [] \<rparr>]"
    by (simp add: sample_listing_doc_def)
  have e: "dataset empty_sinks @ map (\<lambda>row. RowItem (rowRecord sample_world (page_url (sample_request ''https://a.test/hot'')) row))
             (filter (link_resolves sample_world (page_url (sample_request ''https://a.test/hot'')))
                (row_elems sample_listing_doc)) = [RowItem sample_row_record]"
    by code_simp
  from listing_rows_with_resolvable_link[OF h, of sample_input sample_listing_doc
      "sample_request ''https://a.test/hot''" empty_sinks] e
  have "dataset (listingPageHandler sample_input sample_world sample_listing_doc
      (sample_request ''https://a.test/hot'') empty_sinks) = [RowItem sample_row_record]"
    by simp
  with h r show ?thesis by blast
qed

section \<open>Same-host filtering of links\<close>

lemma transform_accepts:
  assumes "followInternalOnly inp" "transformRequestFunction inp w request r = Some r'"
  shows "r' = r \<and> url_host w (req_url r) = start_host w request \<and> url_host w (req_url r) \<noteq> None"
  using assms
  by (auto simp: transformRequestFunction_def split: option.splits if_splits)

lemma transform_unparsable:
  "followInternalOnly inp \<Longrightarrow> url_host w (req_url r) = None \<Longrightarrow>
   transformRequestFunction inp w request r = None"
  by (simp add: transformRequestFunction_def split: option.splits)

lemma transform_returns_argument:
  "transformRequestFunction inp w request r = Some r' \<Longrightarrow> r' = r"
  by (auto simp: transformRequestFunction_def split: option.splits if_splits)

lemma start_host_seed: "start_host w (startRequest w seed) = url_host w seed"
  by (simp add: start_host_def startRequest_def split: option.splits)

lemma start_host_link: "start_host w (link_request c\<lparr>req_loadedUrl := l\<rparr>) = url_host w c"
  by (simp add: start_host_def link_request_def)

text \<open>Along a chain of hops the host that links are compared with stays the same.\<close>

lemma crawl_path_start_host:
  "followInternalOnly inp \<Longrightarrow> crawl_path inp w request hops = Some r \<Longrightarrow>
   start_host w r = start_host w request"
proof (induction hops arbitrary: request)
  case Nil
  then show ?case by simp
next
  case (Cons hop hops)
  obtain c l where hop: "hop = (c, l)" by (cases hop)
  from Cons.prems(2) obtain r1 where
    t: "transformRequestFunction inp w request (link_request c) = Some r1" and
    p: "crawl_path inp w (r1\<lparr>req_loadedUrl := l\<rparr>) hops = Some r"
    by (auto simp: hop split: option.splits)
  from transform_accepts[OF Cons.prems(1) t]
  have r1: "r1 = link_request c" and h: "url_host w c = start_host w request"
    by (simp_all add: link_request_def)
  have "start_host w r = start_host w (r1\<lparr>req_loadedUrl := l\<rparr>)"
    using Cons.IH[OF Cons.prems(1) p] .
  also have "\<dots> = url_host w c"
    by (simp add: r1 start_host_link)
  finally show ?case by (simp add: h)
qed

text \<open>A request reached over at least one hop carries no \<^verbatim>\<open>startHost\<close>.\<close>

lemma crawl_path_no_start_host:
  "hops \<noteq> [] \<Longrightarrow> crawl_path inp w request hops = Some r \<Longrightarrow> startHost r = None"
proof (induction hops arbitrary: request)
  case Nil
  then show ?case by simp
next
  case (Cons hop hops)
  obtain c l where hop: "hop = (c, l)" by (cases hop)
  from Cons.prems(2) obtain r1 where
    t: "transformRequestFunction inp w request (link_request c) = Some r1" and
    p: "crawl_path inp w (r1\<lparr>req_loadedUrl := l\<rparr>) hops = Some r"
    by (auto simp: hop split: option.splits)
  have r1: "r1 = link_request c"
    using t by (rule transform_returns_argument)
  show ?case
  proof (cases "hops = []")
    case True
    with p show ?thesis by (auto simp: r1 link_request_def)
  next
    case False
    then show ?thesis using p by (rule Cons.IH)
  qed
qed

text \<open>
  With \<^verbatim>\<open>followInternalOnly\<close> on, on every page reached from a seed over any chain of
  followed links, the host a candidate is compared with is the host of the seed URL: a
  candidate is let through only if its URL parses and its host equals the host of the seed,
  and a candidate whose URL does not parse is dropped. A request reached over one or more
  hops carries no host in its user data; the host is read from that request's own URL,
  which has the host of the seed because the link passed the filter.
\<close>

lemma seed_host_kept_along_hops:
  assumes "followInternalOnly inp"
    and "crawl_path inp w (startRequest w seed) hops = Some request"
  shows "start_host w request = url_host w seed \<and>
         (\<forall>r r'. transformRequestFunction inp w request r = Some r' \<longrightarrow>
            r' = r \<and> url_host w (req_url r) = url_host w seed \<and> url_host w (req_url r) \<noteq> None) \<and>
         (\<forall>r. url_host w (req_url r) = None \<longrightarrow> transformRequestFunction inp w request r = None) \<and>
         (hops \<noteq> [] \<longrightarrow>
            startHost request = None \<and> start_host w request = url_host w (req_url request))"
proof -
  have s: "start_host w request = url_host w seed"
    using crawl_path_start_host[OF assms] by (simp add: start_host_seed)
  have a: "\<forall>r r'. transformRequestFunction inp w request r = Some r' \<longrightarrow>
            r' = r \<and> url_host w (req_url r) = url_host w seed \<and> url_host w (req_url r) \<noteq> None"
    using transform_accepts[OF assms(1), of w request] s by metis
  have u: "\<forall>r. url_host w (req_url r) = None \<longrightarrow> transformRequestFunction inp w request r = None"
    using transform_unparsable[OF assms(1)] by blast
  have n: "hops \<noteq> [] \<longrightarrow>
            startHost request = None \<and> start_host w request = url_host w (req_url request)"
  proof
    assume "hops \<noteq> []"
    then have "startHost request = None"
      using assms(2) by (rule crawl_path_no_start_host)
    then show "startHost request = None \<and> start_host w request = url_host w (req_url request)"
      by (simp add: start_host_def)
  qed
  from s a u n show ?thesis by blast
qed

text \<open>
  C7 fails on the code: the origin host is not propagated. The claim has the host fixed at
  crawl start carried to every page discovered from the seed and never recomputed. The
  seed request for \<^verbatim>\<open>https://a.test/hot\<close> carries the host \<^verbatim>\<open>a.test\<close>; the request
  that \<open>listingPageHandler\<close> enqueues for the link \<^verbatim>\<open>https://a.test/boardgame/42\<close> found on
  the seed page carries no host, and on its page the host that links are compared with is
  computed anew from that request's own URL.
\<close>

theorem start_host_not_propagated:
  "startHost (startRequest sample_world ''https://a.test/hot'') = Some ''a.test'' \<and>
   transformRequestFunction sample_input sample_world (startRequest sample_world ''https://a.test/hot'')
     (link_request ''https://a.test/boardgame/42'') = Some (sample_request ''https://a.test/boardgame/42'') \<and>
   queue (listingPageHandler sample_input sample_world sample_listing_doc
     (startRequest sample_world ''https://a.test/hot'') empty_sinks) =
     [sample_request ''https://a.test/boardgame/42''] \<and>
   startHost (sample_request ''https://a.test/boardgame/42'') = None \<and>
   start_host sample_world (sample_request ''https://a.test/boardgame/42'') =
     url_host sample_world (req_url (sample_request ''https://a.test/boardgame/42''))"
  by code_simp

section \<open>Extraction from the page\<close>

lemma dropWhile_all: "dropWhile P xs = [] \<Longrightarrow> \<forall>x \<in> set xs. P x"
  by (simp add: dropWhile_eq_Nil_conv)

lemma trim_empty_spaces:
  assumes "trim s = []"
  shows "\<forall>c \<in> set s. js_space c"
proof -
  from assms have "dropWhile js_space (rev (dropWhile js_space s)) = []"
    by (simp add: trim_def)
  then have a: "\<forall>c \<in> set (dropWhile js_space s). js_space c"
    by (auto dest: dropWhile_all)
  have "dropWhile js_space s = []"
  proof (rule ccontr)
    assume n: "dropWhile js_space s \<noteq> []"
    then have "\<not> js_space (hd (dropWhile js_space s))" by (rule hd_dropWhile)
    moreover have "hd (dropWhile js_space s) \<in> set (dropWhile js_space s)"
      using n by simp
    ultimately show False using a by blast
  qed
  then show ?thesis by (rule dropWhile_all)
qed

lemma space_not_digit: "js_space c \<Longrightarrow> \<not> is_digit c"
  by (auto simp: js_space_def is_digit_def)

lemma digits_only_blank: "trim s = [] \<Longrightarrow> digits_only s = []"
  by (rule digits_only_none) (auto dest: trim_empty_spaces space_not_digit)

lemma resolve_bgg_id_empty:
  \<open>attr_or_empty doc ''link[rel="canonical"]'' ''href'' = [] \<Longrightarrow>
   attr_or_empty doc ''meta[name="og:url"]'' ''content'' = [] \<Longrightarrow>
   resolve_bgg_id doc = []\<close>
  by (simp add: resolve_bgg_id_def canonical_bgg_id_def meta_bgg_id_def typed_segment_at_def
        starts_with_def)

text \<open>Every identifier the patterns capture is a run of digits.\<close>

lemma slash_digits_digits: "slash_digits s = Some d \<Longrightarrow> \<forall>c \<in> set d. is_digit c"
  by (auto simp: slash_digits_def split: list.splits if_splits dest: set_takeWhileD)

lemma dotstar_slash_digits_digits:
  "dotstar_slash_digits s = Some d \<Longrightarrow> \<forall>c \<in> set d. is_digit c"
proof (induction s)
  case Nil
  then show ?case by (simp add: slash_digits_digits)
next
  case (Cons c cs)
  then show ?case
    by (auto split: if_splits option.splits dest: slash_digits_digits)
qed

lemma typed_segment_at_digits: "typed_segment_at s = Some d \<Longrightarrow> \<forall>c \<in> set d. is_digit c"
  by (auto simp: typed_segment_at_def split: if_splits dest: dotstar_slash_digits_digits)

lemma trailing_id_at_digits: "trailing_id_at s = Some d \<Longrightarrow> \<forall>c \<in> set d. is_digit c"
  by (auto simp: trailing_id_at_def split: if_splits dest: set_takeWhileD)

lemma search_found: "search f s = Some r \<Longrightarrow> \<exists>t. f t = Some r"
  by (induction s) (auto split: option.splits)

lemma canonical_at_digits:
  "canonical_at t = Some (m1, m2) \<Longrightarrow>
   (\<forall>d. m1 = Some d \<longrightarrow> (\<forall>c \<in> set d. is_digit c)) \<and>
   (\<forall>d. m2 = Some d \<longrightarrow> (\<forall>c \<in> set d. is_digit c))"
  by (auto simp: canonical_at_def split: option.splits
           dest: typed_segment_at_digits trailing_id_at_digits)

lemma capture_or_digits:
  "(\<forall>d. m = Some d \<longrightarrow> (\<forall>c \<in> set d. is_digit c)) \<Longrightarrow> \<forall>c \<in> set b. is_digit c \<Longrightarrow>
   \<forall>c \<in> set (capture_or m b). is_digit c"
  by (auto simp: capture_or_def split: option.splits)

lemma canonical_bgg_id_digits: "\<forall>c \<in> set (canonical_bgg_id s). is_digit c"
proof (cases "search canonical_at s")
  case None
  have "canonical_bgg_id s = []"
    unfolding canonical_bgg_id_def using None by simp
  then show ?thesis by simp
next
  case (Some m)
  then obtain t where t: "canonical_at t = Some m"
    by (auto dest: search_found)
  obtain m1 m2 where m: "m = (m1, m2)" by (cases m)
  note d = canonical_at_digits[OF t[unfolded m]]
  have c2: "\<forall>c \<in> set (capture_or m2 []). is_digit c"
    by (rule capture_or_digits) (use d in simp_all)
  have c: "\<forall>c \<in> set (capture_or m1 (capture_or m2 [])). is_digit c"
    by (rule capture_or_digits) (use d c2 in simp_all)
  have "canonical_bgg_id s = [] \<or> canonical_bgg_id s = capture_or m1 (capture_or m2 [])"
    unfolding canonical_bgg_id_def using Some m by simp
  then show ?thesis
    using c by auto
qed

lemma meta_bgg_id_digits:
  assumes "\<forall>c \<in> set b. is_digit c"
  shows "\<forall>c \<in> set (meta_bgg_id b s). is_digit c"
proof (cases "search typed_segment_at s")
  case None
  have "meta_bgg_id b s = b"
    unfolding meta_bgg_id_def using None by simp
  then show ?thesis using assms by simp
next
  case (Some d)
  then obtain t where "typed_segment_at t = Some d"
    by (auto dest: search_found)
  then have "\<forall>c \<in> set d. is_digit c" by (rule typed_segment_at_digits)
  moreover have "meta_bgg_id b s = d"
    unfolding meta_bgg_id_def using Some by simp
  ultimately show ?thesis by simp
qed

lemma resolve_bgg_id_digits: "\<forall>c \<in> set (resolve_bgg_id doc). is_digit c"
proof -
  have "(\<exists>s. resolve_bgg_id doc = canonical_bgg_id s) \<or> (\<exists>s. resolve_bgg_id doc = meta_bgg_id [] s)"
    unfolding resolve_bgg_id_def Let_def by (auto split: if_splits)
  moreover have "\<forall>c \<in> set (meta_bgg_id [] s). is_digit c" for s
    by (rule meta_bgg_id_digits) simp
  ultimately show ?thesis
    using canonical_bgg_id_digits by auto
qed

text \<open>
  C8, as the code has it. \<open>extract_record\<close> is a total function: for every document it
  returns a record, and no step of lines 82 to 123 can throw. The name is the empty string
  when the trimmed heading text is empty and the \<^verbatim>\<open>og:title\<close> content is missing or the
  empty string (that content is used as it is, untrimmed). The average rating, the voter
  count, the year and the description are the empty string when the trimmed text of their
  selector is empty; the two ratings are always strings. The identifier is the empty string
  when both the canonical link and the \<^verbatim>\<open>og:url\<close> content are missing or empty.
\<close>

theorem empty_selectors_give_empty_strings:
  assumes \<open>r = extract_record doc request now\<close>
  shows \<open>(trim (first_text doc ''#mainbody h1, .game-title, .header-title'') = [] \<and>
          attr_or_empty doc ''meta[property="og:title"]'' ''content'' = [] \<longrightarrow> name r = []) \<and>
         (trim (first_text doc ''.gameplay .rating .rating-value, .game_rating .value'') = [] \<longrightarrow>
            avg_rating r = JStr []) \<and>
         (trim (first_text doc ''a[href$="/ratings"]'') = [] \<longrightarrow> num_voters r = JStr []) \<and>
         (trim (first_text doc ''.gameplay .year, .game-title .year'') = [] \<longrightarrow> year r = []) \<and>
         (trim (first_text doc ''#mainbody #description, #overview, .game-description'') = [] \<longrightarrow>
            description r = []) \<and>
         (attr_or_empty doc ''link[rel="canonical"]'' ''href'' = [] \<and>
          attr_or_empty doc ''meta[name="og:url"]'' ''content'' = [] \<longrightarrow> bgg_id r = []) \<and>
         (\<exists>a. avg_rating r = JStr a) \<and> (\<exists>v. num_voters r = JStr v)\<close>
  unfolding assms
  by (simp add: extract_record_def Let_def digits_only_blank resolve_bgg_id_empty)

theorem empty_selectors_give_empty_strings_witness:
  \<open>trim (first_text (sample_meta_doc ''meta[name="og:url"]'' []) ''#mainbody h1, .game-title, .header-title'') = [] \<and>
   attr_or_empty (sample_meta_doc ''meta[name="og:url"]'' []) ''meta[property="og:title"]'' ''content'' = [] \<and>
   trim (first_text (sample_meta_doc ''meta[name="og:url"]'' []) ''.gameplay .rating .rating-value, .game_rating .value'') = [] \<and>
   attr_or_empty (sample_meta_doc ''meta[name="og:url"]'' []) ''link[rel="canonical"]'' ''href'' = [] \<and>
   attr_or_empty (sample_meta_doc ''meta[name="og:url"]'' []) ''meta[name="og:url"]'' ''content'' = [] \<and>
   name (extract_record (sample_meta_doc ''meta[name="og:url"]'' []) (sample_request ''https://a.test/boardgame/42'') []) = [] \<and>
   avg_rating (extract_record (sample_meta_doc ''meta[name="og:url"]'' []) (sample_request ''https://a.test/boardgame/42'') []) = JStr [] \<and>
   bgg_id (extract_record (sample_meta_doc ''meta[name="og:url"]'' []) (sample_request ''https://a.test/boardgame/42'') []) = []\<close>
proof -
  let ?d = \<open>sample_meta_doc ''meta[name="og:url"]'' []\<close>
  let ?r = \<open>extract_record ?d (sample_request ''https://a.test/boardgame/42'') []\<close>
  have h: \<open>trim (first_text ?d ''#mainbody h1, .game-title, .header-title'') = []\<close>
    \<open>attr_or_empty ?d ''meta[property="og:title"]'' ''content'' = []\<close>
    \<open>trim (first_text ?d ''.gameplay .rating .rating-value, .game_rating .value'') = []\<close>
    \<open>attr_or_empty ?d ''link[rel="canonical"]'' ''href'' = []\<close>
    \<open>attr_or_empty ?d ''meta[name="og:url"]'' ''content'' = []\<close>
    by code_simp+
  from empty_selectors_give_empty_strings[OF refl, of ?d \<open>sample_request ''https://a.test/boardgame/42''\<close> \<open>[]\<close>] h
  have \<open>name ?r = [] \<and> avg_rating ?r = JStr [] \<and> bgg_id ?r = []\<close>
    by blast
  with h show ?thesis by blast
qed

text \<open>
  C8 as stated fails for the name. On a page without heading whose \<^verbatim>\<open>og:title\<close>
  content is two spaces, every candidate has empty trimmed text, and the name is the two
  spaces.
\<close>

theorem blank_og_title_kept_counterexample:
  \<open>trim (first_text (sample_meta_doc ''meta[property="og:title"]'' ''  '')
           ''#mainbody h1, .game-title, .header-title'') = [] \<and>
   trim (attr_or_empty (sample_meta_doc ''meta[property="og:title"]'' ''  '')
           ''meta[property="og:title"]'' ''content'') = [] \<and>
   name (extract_record (sample_meta_doc ''meta[property="og:title"]'' ''  '')
           (sample_request ''https://a.test/boardgame/42'') []) = ''  '' \<and>
   name (extract_record (sample_meta_doc ''meta[property="og:title"]'' ''  '')
           (sample_request ''https://a.test/boardgame/42'') []) \<noteq> []\<close>
  by code_simp

text \<open>
  C9 fails on the code: the pattern of the fallback lacks the second alternative of the
  pattern of the canonical link. The URL
  \<^verbatim>\<open>https://boardgamegeek.com/boardgame/174430/gloomhaven\<close> gives the identifier
  \<^verbatim>\<open>174430\<close> when it is the canonical link, and no identifier when it is the
  \<^verbatim>\<open>og:url\<close> content of a page without canonical link.
\<close>

theorem meta_fallback_lacks_second_alternative:
  \<open>canonical_bgg_id ''https://boardgamegeek.com/boardgame/174430/gloomhaven'' = ''174430'' \<and>
   meta_bgg_id [] ''https://boardgamegeek.com/boardgame/174430/gloomhaven'' = [] \<and>
   resolve_bgg_id (sample_game_doc ''https://boardgamegeek.com/boardgame/174430/gloomhaven'') = ''174430'' \<and>
   resolve_bgg_id (sample_meta_doc ''meta[name="og:url"]''
      ''https://boardgamegeek.com/boardgame/174430/gloomhaven'') = []\<close>
  by code_simp

end
